theory Spec2Isabelle
  imports Main "HOL-Library.Word"
begin

section \<open>Data model\<close>

text \<open>
  \<open>size_t\<close> and \<open>hsize_t\<close> are unsigned 64-bit integers: \<open>+\<close> and \<open>-\<close> wrap
  around, \<open>unat\<close> reads the value.
\<close>

type_synonym size_t = "64 word"

text \<open>The classes of \<open>H5T_class_t\<close> that \<open>convert_type_class\<close> distinguishes.\<close>

datatype H5T_class_t =
    H5T_NO_CLASS
  | H5T_INTEGER
  | H5T_FLOAT
  | H5T_TIME
  | H5T_STRING
  | H5T_BITFIELD
  | H5T_OPAQUE
  | H5T_COMPOUND
  | H5T_REFERENCE
  | H5T_ENUM
  | H5T_VLEN
  | H5T_ARRAY

text \<open>
  Modelled from the spec: the storage library's type descriptors, which are not part of
  this file. The source only reads them through \<open>H5Tget_class\<close>, \<open>H5Tget_size\<close>,
  \<open>H5Tis_variable_str\<close>, \<open>H5Tequal(_, H5T_STD_REF_OBJ)\<close>, \<open>H5Tget_nmembers\<close> and
  \<open>H5Tget_member_type\<close>, so a descriptor carries exactly what these return: its class,
  its byte size, whether it is a variable-length string, whether it is equivalent to
  the object-reference type, and (for a composite) the ordered members, each a name, a
  byte offset and a descriptor. A descriptor is a finite tree.
\<close>

datatype h5t =
  H5T (h5t_class: H5T_class_t) (h5t_size: size_t) (h5t_variable_str: bool)
      (h5t_std_ref_obj: bool) (h5t_members: "(string \<times> size_t \<times> h5t) list")

text \<open>A handle \<open>hid_t\<close> names a descriptor or is \<open>H5I_INVALID_HID\<close> (\<open>None\<close>).\<close>

type_synonym hid_t = "h5t option"

text \<open>
  Every \<open>throw\<close> of the source is a \<open>DataTypeException\<close>; the model keeps one
  constructor for each site, named after its message. The last two are not exceptions:
  they stand for the undefined behaviour of \<open>%\<close> with a zero divisor and of an access
  outside a \<open>std::array\<close>.
\<close>

datatype error =
    ErrorGettingSize          \<comment> \<open>"Error getting size of datatype."\<close>
  | UnableToDefineVariable    \<comment> \<open>"Unable to define datatype size to variable"\<close>
  | CannotGetMembers          \<comment> \<open>"Cannot get members of CompoundType with hid: ..."\<close>
  | NoMembersDefined          \<comment> \<open>"No members defined for CompoundType with hid: ..."\<close>
  | CannotGetSizeOfDataType   \<comment> \<open>"Cannot get size of DataType with hid: ..."\<close>
  | CouldNotCreateCompound    \<comment> \<open>"Could not create new compound datatype"\<close>
  | CouldNotAddMember         \<comment> \<open>"Could not add new member to datatype"\<close>
  | TypeNotValid              \<comment> \<open>"Type given to create_and_check_datatype is not valid"\<close>
  | SizeMismatch size_t size_t \<comment> \<open>"Size of array type ... != that of memory datatype ..."\<close>
  | DivisionByZero
  | OutOfBounds

section \<open>Queries of the storage library\<close>

definition H5Tget_class :: "hid_t \<Rightarrow> H5T_class_t" where
  "H5Tget_class hid = (case hid of None \<Rightarrow> H5T_NO_CLASS | Some t \<Rightarrow> h5t_class t)"

text \<open>\<open>H5Tget_size\<close> returns 0 when it fails.\<close>

definition H5Tget_size :: "hid_t \<Rightarrow> size_t" where
  "H5Tget_size hid = (case hid of None \<Rightarrow> 0 | Some t \<Rightarrow> h5t_size t)"

text \<open>
  \<open>H5Tget_nmembers\<close> returns a negative value when it fails; the source calls it on
  composites only.
\<close>

definition H5Tget_nmembers :: "hid_t \<Rightarrow> int" where
  "H5Tget_nmembers hid = (case hid of None \<Rightarrow> - 1 | Some t \<Rightarrow> int (length (h5t_members t)))"

definition H5Tget_member_type :: "hid_t \<Rightarrow> nat \<Rightarrow> hid_t" where
  "H5Tget_member_type hid i =
     (case hid of
        None \<Rightarrow> None
      | Some t \<Rightarrow>
          if i < length (h5t_members t) then Some (snd (snd (h5t_members t ! i))) else None)"

text \<open>\<open>H5Tis_variable_str\<close> is a \<open>htri_t\<close>: negative on failure, else 0 or 1.\<close>

definition H5Tis_variable_str :: "hid_t \<Rightarrow> int" where
  "H5Tis_variable_str hid =
     (case hid of None \<Rightarrow> - 1 | Some t \<Rightarrow> if h5t_variable_str t then 1 else 0)"

text \<open>\<open>H5Tequal(hid, H5T_STD_REF_OBJ)\<close>, again a \<open>htri_t\<close>.\<close>

definition H5Tequal_STD_REF_OBJ :: "hid_t \<Rightarrow> int" where
  "H5Tequal_STD_REF_OBJ hid =
     (case hid of None \<Rightarrow> - 1 | Some t \<Rightarrow> if h5t_std_ref_obj t then 1 else 0)"

section \<open>detail::h5t_get_size and the DataType queries\<close>

definition h5t_get_size :: "hid_t \<Rightarrow> error + size_t" where
  "h5t_get_size hid =
     (let sz = H5Tget_size hid in
      if sz = 0 then Inl ErrorGettingSize else Inr sz)"

text \<open>A \<open>DataType\<close> object holds one handle, \<open>_hid\<close>.\<close>

type_synonym DataType = hid_t

definition empty :: "DataType \<Rightarrow> bool" where
  "empty t = (t = None)"

definition getClass :: "DataType \<Rightarrow> H5T_class_t" where
  "getClass t = H5Tget_class t"

definition getSize :: "DataType \<Rightarrow> error + size_t" where
  "getSize t = h5t_get_size t"

definition isVariableStr :: "DataType \<Rightarrow> error + bool" where
  "isVariableStr t =
     (let var_value = H5Tis_variable_str t in
      if var_value < 0 then Inl UnableToDefineVariable else Inr (var_value \<noteq> 0))"

definition isFixedLenStr :: "DataType \<Rightarrow> error + bool" where
  "isFixedLenStr t =
     (if getClass t = H5T_STRING
      then (case isVariableStr t of Inl e \<Rightarrow> Inl e | Inr v \<Rightarrow> Inr (\<not> v))
      else Inr False)"

definition isReference :: "DataType \<Rightarrow> bool" where
  "isReference t = (H5Tequal_STD_REF_OBJ t > 0)"

section \<open>The padding macro\<close>

text \<open>
  \<open>_H5_STRUCT_PADDING(current_size, member_size)\<close>. The macro divides by
  \<open>member_size\<close> in both branches; with a zero divisor \<open>%\<close> is undefined in C++,
  which the model returns as \<open>DivisionByZero\<close>.
\<close>

definition H5_STRUCT_PADDING :: "size_t \<Rightarrow> size_t \<Rightarrow> error + size_t" where
  "H5_STRUCT_PADDING current_size member_size =
     (if member_size = 0 then Inl DivisionByZero
      else Inr (if member_size \<ge> current_size
                then (member_size - current_size) mod member_size
                else (member_size - ((current_size - member_size) mod member_size))
                       mod member_size))"

section \<open>find_first_atomic_member_size\<close>

text \<open>
  The function descends through the first member of each composite.
  \<open>H5Tclose(member_type)\<close> releases the handle the descent opened and has no effect on
  the result.
\<close>

function find_first_atomic_member_size :: "hid_t \<Rightarrow> error + size_t" where
  "find_first_atomic_member_size hid =
     (if H5Tget_class hid = H5T_COMPOUND then
        (let number_of_members = H5Tget_nmembers hid in
         if number_of_members = - 1 then Inl CannotGetMembers
         else if number_of_members = 0 then Inl NoMembersDefined
         else find_first_atomic_member_size (H5Tget_member_type hid 0))
      else if H5Tget_class hid = H5T_STRING then Inr 1
      else h5t_get_size hid)"
  by pat_completeness auto
termination
proof (relation "measure (\<lambda>hid. case hid of None \<Rightarrow> 0 | Some t \<Rightarrow> size t)")
  show "wf (measure (\<lambda>hid. case hid of None \<Rightarrow> 0 | Some t \<Rightarrow> size t))" by simp
next
  fix hid :: hid_t and n :: int
  assume c: "H5Tget_class hid = H5T_COMPOUND"
    and n: "n = H5Tget_nmembers hid" "n \<noteq> - 1" "n \<noteq> 0"
  from n obtain t where t: "hid = Some t" and ne: "h5t_members t \<noteq> []"
    by (cases hid) (auto simp: H5Tget_nmembers_def)
  obtain cl sz v r ms where tt: "t = H5T cl sz v r ms" by (cases t)
  with ne obtain nm off t' rest where ms: "ms = (nm, off, t') # rest"
    by (cases ms) auto
  show "(H5Tget_member_type hid 0, hid)
          \<in> measure (\<lambda>hid. case hid of None \<Rightarrow> 0 | Some t \<Rightarrow> size t)"
    by (simp add: t tt ms H5Tget_member_type_def)
qed

declare find_first_atomic_member_size.simps [simp del]

section \<open>CompoundType\<close>

text \<open>
  A \<open>member_def\<close> of \<open>CompoundType\<close>: the member's name, its type and its byte
  offset. A \<open>CompoundType\<close> holds its member list and the handle \<open>_hid\<close> (here
  \<open>compound_hid\<close>) of the descriptor it has created.
\<close>

record member_def =
  name :: string
  base_type :: DataType
  offset :: size_t

record CompoundType =
  members :: "member_def list"
  compound_hid :: hid_t

text \<open>
  Modelled from the spec: the storage library's create-compound and insert-member
  primitives, which are not part of this file. \<open>H5Tcreate(H5T_COMPOUND, size)\<close> gives a
  composite descriptor of that size with no members, and \<open>H5Tinsert\<close> adds one member
  at the end of the member list; both may refuse, and when they do is left open:
  \<open>create_refused sz\<close> and \<open>insert_refused parent name offset member\<close> are
  parameters of the model.
\<close>

record hdf5 =
  create_refused :: "size_t \<Rightarrow> bool"
  insert_refused :: "h5t \<Rightarrow> string \<Rightarrow> size_t \<Rightarrow> hid_t \<Rightarrow> bool"

definition H5Tcreate_COMPOUND :: "hdf5 \<Rightarrow> size_t \<Rightarrow> hid_t" where
  "H5Tcreate_COMPOUND lib sz =
     (if create_refused lib sz then None
      else Some (H5T H5T_COMPOUND sz False False []))"

text \<open>\<open>H5Tinsert\<close> returns the parent as updated, or \<open>None\<close> for a negative \<open>herr_t\<close>.\<close>

definition H5Tinsert :: "hdf5 \<Rightarrow> hid_t \<Rightarrow> string \<Rightarrow> size_t \<Rightarrow> hid_t \<Rightarrow> hid_t" where
  "H5Tinsert lib parent nm off member =
     (case (parent, member) of
        (Some p, Some m) \<Rightarrow>
          if insert_refused lib p nm off member then None
          else Some (H5T (h5t_class p) (h5t_size p) (h5t_variable_str p) (h5t_std_ref_obj p)
                         (h5t_members p @ [(nm, off, m)]))
      | _ \<Rightarrow> None)"

text \<open>
  The first pass of \<open>CompoundType::create\<close>: the loop over the members that sets each
  offset, with \<open>current_size\<close> and \<open>max_atomic_size\<close> as the loop's state. It returns
  the members as updated and the two variables after the last member.
\<close>

fun first_pass :: "member_def list \<Rightarrow> size_t \<Rightarrow> size_t
                     \<Rightarrow> error + (member_def list \<times> size_t \<times> size_t)" where
  "first_pass [] current_size max_atomic_size = Inr ([], current_size, max_atomic_size)"
| "first_pass (member # rest) current_size max_atomic_size =
     (case h5t_get_size (base_type member) of
        Inl e \<Rightarrow> Inl e
      | Inr member_size \<Rightarrow>
          if member_size = 0 then Inl CannotGetSizeOfDataType
          else
            (case find_first_atomic_member_size (base_type member) of
               Inl e \<Rightarrow> Inl e
             | Inr first_atomic_size \<Rightarrow>
                 (case H5_STRUCT_PADDING current_size first_atomic_size of
                    Inl e \<Rightarrow> Inl e
                  | Inr padding \<Rightarrow>
                      (let off = current_size + padding;
                           current_size' = off + member_size;
                           max_atomic_size' = max max_atomic_size first_atomic_size
                       in case first_pass rest current_size' max_atomic_size' of
                            Inl e \<Rightarrow> Inl e
                          | Inr (rest', c, m) \<Rightarrow>
                              Inr (member\<lparr>offset := off\<rparr> # rest', c, m)))))"

text \<open>The second loop of \<open>create\<close>: insert every member at its offset.\<close>

fun insert_members :: "hdf5 \<Rightarrow> hid_t \<Rightarrow> member_def list \<Rightarrow> error + hid_t" where
  "insert_members lib h [] = Inr h"
| "insert_members lib h (member # rest) =
     (case H5Tinsert lib h (name member) (offset member) (base_type member) of
        None \<Rightarrow> Inl CouldNotAddMember
      | Some h' \<Rightarrow> insert_members lib (Some h') rest)"

text \<open>
  \<open>CompoundType::create(size)\<close>, with \<open>sz\<close> for the argument. The object is
  returned as the call leaves it: the member list with the offsets of the first pass
  (when it ran) and \<open>_hid\<close>.
\<close>

definition create :: "hdf5 \<Rightarrow> CompoundType \<Rightarrow> size_t \<Rightarrow> error + CompoundType" where
  "create lib self sz =
     (case (if sz = 0
            then (case first_pass (members self) 0 0 of
                    Inl e \<Rightarrow> Inl e
                  | Inr (ms, current_size, max_atomic_size) \<Rightarrow>
                      (case H5_STRUCT_PADDING current_size max_atomic_size of
                         Inl e \<Rightarrow> Inl e
                       | Inr padding \<Rightarrow> Inr (ms, current_size + padding)))
            else Inr (members self, sz)) of
        Inl e \<Rightarrow> Inl e
      | Inr (ms, sz') \<Rightarrow>
          (case H5Tcreate_COMPOUND lib sz' of
             None \<Rightarrow> Inl CouldNotCreateCompound
           | Some h \<Rightarrow>
               (case insert_members lib (Some h) ms of
                  Inl e \<Rightarrow> Inl e
                | Inr h' \<Rightarrow> Inr (self\<lparr>members := ms, compound_hid := h'\<rparr>))))"

text \<open>
  Modelled from the spec: the storage library's commit primitive \<open>H5Tcommit2\<close>, which
  is not part of this file, is a parameter: from the storage state, the object, the name
  and the descriptor it gives its \<open>herr_t\<close> (negative on failure) and the storage
  state it leaves.
\<close>

type_synonym ('s, 'o) H5Tcommit2 = "'s \<Rightarrow> 'o \<Rightarrow> string \<Rightarrow> hid_t \<Rightarrow> int \<times> 's"

text \<open>
  \<open>CompoundType::commit\<close> and \<open>EnumType<T>::commit\<close>. Both are \<open>void\<close>, call the
  primitive once and drop what it returns.
\<close>

definition CompoundType_commit ::
    "('s, 'o) H5Tcommit2 \<Rightarrow> 's \<Rightarrow> CompoundType \<Rightarrow> 'o \<Rightarrow> string \<Rightarrow> (error + unit) \<times> 's" where
  "CompoundType_commit H5Tcommit2 st self object nm =
     (case H5Tcommit2 st object nm (compound_hid self) of (herr, st') \<Rightarrow> (Inr (), st'))"

text \<open>An \<open>EnumType<T>\<close>: its named values and the handle \<open>_hid\<close>.\<close>

record EnumType =
  enum_members :: "(string \<times> int) list"
  enum_hid :: hid_t

definition EnumType_commit ::
    "('s, 'o) H5Tcommit2 \<Rightarrow> 's \<Rightarrow> EnumType \<Rightarrow> 'o \<Rightarrow> string \<Rightarrow> (error + unit) \<times> 's" where
  "EnumType_commit H5Tcommit2 st self object nm =
     (case H5Tcommit2 st object nm (enum_hid self) of (herr, st') \<Rightarrow> (Inr (), st'))"

section \<open>FixedLenStringArray\<close>

text \<open>
  A \<open>std::array<char, N>\<close> is a list of \<open>N\<close> characters and \<open>datavec\<close> a list of such
  arrays. \<open>emplace_back()\<close> and \<open>resize\<close> value-initialise the new arrays: every byte
  is the null character. Writes outside an array are undefined behaviour in C++ and
  \<open>OutOfBounds\<close> here.
\<close>

definition NUL :: char where
  "NUL = CHR 0x00"

definition c_str :: "string \<Rightarrow> char list" where
  "c_str s = s @ [NUL]"

definition strlen :: "char list \<Rightarrow> nat" where
  "strlen cs = length (takeWhile (\<lambda>c. c \<noteq> NUL) cs)"

definition memcpy :: "char list \<Rightarrow> char list \<Rightarrow> nat \<Rightarrow> error + char list" where
  "memcpy dst src n =
     (if n \<le> length dst \<and> n \<le> length src then Inr (take n src @ drop n dst)
      else Inl OutOfBounds)"

definition store :: "char list \<Rightarrow> nat \<Rightarrow> char \<Rightarrow> error + char list" where
  "store a i c = (if i < length a then Inr (a[i := c]) else Inl OutOfBounds)"

text \<open>\<open>N - 1\<close> on \<open>size_t\<close>: it wraps around for \<open>N = 0\<close>.\<close>

definition N_minus_1 :: "nat \<Rightarrow> nat" where
  "N_minus_1 N = (if N = 0 then 2 ^ 64 - 1 else N - 1)"

text \<open>
  The body both string paths share, on the new (zeroed) array \<open>dst\<close>: copy \<open>len\<close>
  bytes, then write the null character at index \<open>len\<close>.
\<close>

definition copy_and_terminate :: "char list \<Rightarrow> char list \<Rightarrow> nat \<Rightarrow> error + char list" where
  "copy_and_terminate dst src len =
     (case memcpy dst src len of
        Inl e \<Rightarrow> Inl e
      | Inr a \<Rightarrow> store a len NUL)"

text \<open>\<open>push_back(const std::string&)\<close>: the length is \<open>src.length()\<close>.\<close>

definition push_back :: "nat \<Rightarrow> char list list \<Rightarrow> string \<Rightarrow> error + char list list" where
  "push_back N datavec src =
     (let len = min (N_minus_1 N) (length src)
      in case copy_and_terminate (replicate N NUL) (c_str src) len of
           Inl e \<Rightarrow> Inl e
         | Inr a \<Rightarrow> Inr (datavec @ [a]))"

text \<open>\<open>push_back(const std::array<char, N>&)\<close>: \<open>std::copy\<close> of the whole source.\<close>

definition std_copy :: "char list \<Rightarrow> char list \<Rightarrow> error + char list" where
  "std_copy src dst =
     (if length src \<le> length dst then Inr (src @ drop (length src) dst)
      else Inl OutOfBounds)"

definition push_back_array :: "nat \<Rightarrow> char list list \<Rightarrow> char list \<Rightarrow> error + char list list" where
  "push_back_array N datavec src =
     (case std_copy src (replicate N NUL) of
        Inl e \<Rightarrow> Inl e
      | Inr a \<Rightarrow> Inr (datavec @ [a]))"

text \<open>
  \<open>getString(i)\<close> builds a \<open>std::string\<close> from \<open>datavec[i].data()\<close>: the bytes before
  the first null character. Without one in the array the read runs past its end.
\<close>

definition getString :: "char list list \<Rightarrow> nat \<Rightarrow> error + string" where
  "getString datavec i =
     (if i < length datavec \<and> NUL \<in> set (datavec ! i)
      then Inr (takeWhile (\<lambda>c. c \<noteq> NUL) (datavec ! i))
      else Inl OutOfBounds)"

text \<open>
  The constructor from a range of strings. The two pointers are indices into the array
  \<open>strs\<close> they point into; the loop fills one array for each string from \<open>iter_begin\<close>
  up to, and not including, \<open>iter_end\<close>. The length is \<open>strlen\<close> of \<open>c_str()\<close>.
\<close>

fun fill_all :: "nat \<Rightarrow> string list \<Rightarrow> error + char list list" where
  "fill_all N [] = Inr []"
| "fill_all N (s # rest) =
     (let src = c_str s; len = min (N_minus_1 N) (strlen src)
      in case copy_and_terminate (replicate N NUL) src len of
           Inl e \<Rightarrow> Inl e
         | Inr a \<Rightarrow>
             (case fill_all N rest of
                Inl e \<Rightarrow> Inl e
              | Inr as \<Rightarrow> Inr (a # as)))"

definition FixedLenStringArray_range ::
    "nat \<Rightarrow> string list \<Rightarrow> nat \<Rightarrow> nat \<Rightarrow> error + char list list" where
  "FixedLenStringArray_range N strs iter_begin iter_end =
     (if iter_begin \<le> iter_end \<and> iter_end \<le> length strs
      then fill_all N (take (iter_end - iter_begin) (drop iter_begin strs))
      else Inl OutOfBounds)"

text \<open>
  The constructor from a \<open>std::vector\<close> passes \<open>&vec.front()\<close> and \<open>&vec.back()\<close>:
  the addresses of the first and of the last element (indices \<open>0\<close> and
  \<open>size() - 1\<close>); on an empty vector both calls are undefined.
\<close>

definition FixedLenStringArray_vector :: "nat \<Rightarrow> string list \<Rightarrow> error + char list list" where
  "FixedLenStringArray_vector N vec =
     (if vec = [] then Inl OutOfBounds
      else FixedLenStringArray_range N vec 0 (length vec - 1))"

text \<open>The constructor from an initializer list passes \<open>begin()\<close> and \<open>end()\<close>.\<close>

definition FixedLenStringArray_initializer_list ::
    "nat \<Rightarrow> string list \<Rightarrow> error + char list list" where
  "FixedLenStringArray_initializer_list N init_list =
     FixedLenStringArray_range N init_list 0 (length init_list)"

section \<open>create_and_check_datatype\<close>

text \<open>
  \<open>create_and_check_datatype<T>()\<close>, given what the template supplies: the descriptor
  \<open>t\<close> that \<open>create_datatype<T>()\<close> returns and \<open>sizeof(T)\<close>.
\<close>

definition create_and_check_datatype :: "DataType \<Rightarrow> size_t \<Rightarrow> error + DataType" where
  "create_and_check_datatype t sizeof_T =
     (if empty t then Inl TypeNotValid
      else
        (case isVariableStr t of
           Inl e \<Rightarrow> Inl e
         | Inr True \<Rightarrow> Inr t
         | Inr False \<Rightarrow>
             if isReference t then Inr t
             else
               (case isFixedLenStr t of
                  Inl e \<Rightarrow> Inl e
                | Inr True \<Rightarrow> Inr t
                | Inr False \<Rightarrow>
                    (case getSize t of
                       Inl e \<Rightarrow> Inl e
                     | Inr sz \<Rightarrow>
                         if sizeof_T \<noteq> sz then Inl (SizeMismatch sizeof_T sz)
                         else Inr t))))"

section \<open>Descriptors and members used as examples\<close>

text \<open>
  The native descriptors \<open>AtomicType<char>\<close>, \<open>AtomicType<int>\<close> and
  \<open>AtomicType<double>\<close> copy (integer and float classes of 1, 4 and 8 bytes), a
  fixed-length string of 8 bytes, a variable-length string and the object reference.
\<close>

definition NATIVE_CHAR :: h5t where
  "NATIVE_CHAR = H5T H5T_INTEGER 1 False False []"

definition NATIVE_INT :: h5t where
  "NATIVE_INT = H5T H5T_INTEGER 4 False False []"

definition NATIVE_DOUBLE :: h5t where
  "NATIVE_DOUBLE = H5T H5T_FLOAT 8 False False []"

definition C_S1_8 :: h5t where
  "C_S1_8 = H5T H5T_STRING 8 False False []"

definition C_S1_VARIABLE :: h5t where
  "C_S1_VARIABLE = H5T H5T_STRING 8 True False []"

definition STD_REF_OBJ :: h5t where
  "STD_REF_OBJ = H5T H5T_REFERENCE 8 False True []"

text \<open>A storage library that refuses nothing.\<close>

definition lib_ok :: hdf5 where
  "lib_ok = \<lparr>create_refused = (\<lambda>_. False), insert_refused = (\<lambda>_ _ _ _. False)\<rparr>"

text \<open>The members \<open>{char a; int b;}\<close>, as a caller hands them to \<open>CompoundType\<close>.\<close>

definition char_int :: "member_def list" where
  "char_int =
     [\<lparr>name = ''a'', base_type = Some NATIVE_CHAR, offset = 0\<rparr>,
      \<lparr>name = ''b'', base_type = Some NATIVE_INT, offset = 0\<rparr>]"

text \<open>The same two members with the offsets of a packed layout.\<close>

definition char_int_packed :: "member_def list" where
  "char_int_packed =
     [\<lparr>name = ''a'', base_type = Some NATIVE_CHAR, offset = 0\<rparr>,
      \<lparr>name = ''b'', base_type = Some NATIVE_INT, offset = 1\<rparr>]"

section \<open>The first leaf of a descriptor\<close>

text \<open>
  \<open>first_leaf t l\<close>: \<open>l\<close> is the descriptor reached from \<open>t\<close> by going to the first
  member of each composite until a descriptor that is not a composite is reached.
\<close>

inductive first_leaf :: "h5t \<Rightarrow> h5t \<Rightarrow> bool" where
  leaf: "h5t_class t \<noteq> H5T_COMPOUND \<Longrightarrow> first_leaf t t"
| descend: "h5t_class t = H5T_COMPOUND \<Longrightarrow> h5t_members t = (nm, off, t') # rest \<Longrightarrow>
            first_leaf t' l \<Longrightarrow> first_leaf t l"

code_pred first_leaf .

text \<open>The composites \<open>{double d; char c;}\<close> and \<open>{{double d; char c;} inner; int x;}\<close>.\<close>

definition double_char :: h5t where
  "double_char =
     H5T H5T_COMPOUND 16 False False [(''d'', 0, NATIVE_DOUBLE), (''c'', 8, NATIVE_CHAR)]"

definition nested :: h5t where
  "nested =
     H5T H5T_COMPOUND 24 False False [(''inner'', 0, double_char), (''x'', 16, NATIVE_INT)]"

section \<open>Sizes, alignment units and byte ranges of members\<close>

text \<open>
  The byte size and the alignment unit of a member, as the first pass reads them from
  the member's type (0 where the query fails), and the bytes the member occupies.
\<close>

definition member_size :: "member_def \<Rightarrow> size_t" where
  "member_size m = H5Tget_size (base_type m)"

definition alignment_unit :: "member_def \<Rightarrow> size_t" where
  "alignment_unit m =
     (case find_first_atomic_member_size (base_type m) of Inl _ \<Rightarrow> 0 | Inr u \<Rightarrow> u)"


text \<open>
  A bound on the size of a layout: no padding reaches the member's alignment unit, so
  the members end before the sum of their sizes and alignment units.
\<close>

definition layout_bound :: "member_def list \<Rightarrow> nat" where
  "layout_bound ms = (\<Sum>m\<leftarrow>ms. unat (member_size m) + unat (alignment_unit m))"


text \<open>The \<open>CompoundType\<close> that \<open>create\<close> leaves for \<open>{char a; int b;}\<close>.\<close>

definition char_int_created :: CompoundType where
  "char_int_created =
     \<lparr>members = [\<lparr>name = ''a'', base_type = Some NATIVE_CHAR, offset = 0\<rparr>,
                 \<lparr>name = ''b'', base_type = Some NATIVE_INT, offset = 4\<rparr>],
      compound_hid = Some (H5T H5T_COMPOUND 8 False False
                             [(''a'', 0, NATIVE_CHAR), (''b'', 4, NATIVE_INT)])\<rparr>"

text \<open>
  The \<open>CompoundType\<close> that \<open>create\<close> leaves for the packed members and the
  explicit size 5.
\<close>

definition char_int_packed_created :: CompoundType where
  "char_int_packed_created =
     \<lparr>members = char_int_packed,
      compound_hid = Some (H5T H5T_COMPOUND 5 False False
                             [(''a'', 0, NATIVE_CHAR), (''b'', 1, NATIVE_INT)])\<rparr>"

text \<open>A \<open>CompoundType\<close> with an empty member list.\<close>

definition no_members :: CompoundType where
  "no_members = \<lparr>members = [], compound_hid = None\<rparr>"




section \<open>Properties of the padding macro\<close>

lemma padding_unat:
  assumes "m \<noteq> 0"
  shows "\<exists>p. H5_STRUCT_PADDING c m = Inr p \<and> unat p < unat m \<and>
             (unat c + unat p) mod unat m = 0"
proof -
  have m0: "0 < unat m" using assms by (simp add: unat_gt_0)
  show ?thesis
  proof (cases "c \<le> m")
    case True
    then have le: "unat c \<le> unat m" by (simp add: word_le_nat_alt)
    have p: "unat ((m - c) mod m) = (unat m - unat c) mod unat m"
      using True by (simp add: unat_mod unat_sub)
    have "(unat c + (unat m - unat c) mod unat m) mod unat m = 0"
    proof (cases "unat c = 0")
      case True
      then show ?thesis by simp
    next
      case False
      then have "unat m - unat c < unat m" using le m0 by arith
      then have "(unat m - unat c) mod unat m = unat m - unat c" by simp
      then show ?thesis using le by simp
    qed
    then show ?thesis using True assms m0 p by (simp add: H5_STRUCT_PADDING_def)
  next
    case False
    then have lt: "m < c" by simp
    then have ltn: "unat m < unat c" by (simp add: word_less_nat_alt)
    define r where "r = (unat c - unat m) mod unat m"
    have r_lt: "r < unat m" using m0 by (simp add: r_def)
    have r_le: "(c - m) mod m \<le> m"
      using r_lt by (simp add: word_le_nat_alt unat_mod unat_sub lt less_imp_le r_def)
    have r_eq: "unat ((c - m) mod m) = r"
      using lt by (simp add: unat_mod unat_sub less_imp_le r_def)
    have p: "unat ((m - (c - m) mod m) mod m) = (unat m - r) mod unat m"
      using r_le r_eq by (simp add: unat_mod unat_sub)
    have cm: "unat c mod unat m = r"
      using ltn by (simp add: r_def le_mod_geq less_imp_le)
    have "(unat c + (unat m - r) mod unat m) mod unat m
            = (unat c mod unat m + (unat m - r) mod unat m) mod unat m"
      by (simp add: mod_add_left_eq)
    also have "\<dots> = (r + (unat m - r)) mod unat m"
      using cm by (simp add: mod_add_right_eq)
    also have "\<dots> = 0" using r_lt by simp
    finally have z: "(unat c + (unat m - r) mod unat m) mod unat m = 0" .
    show ?thesis using False assms m0 p z by (simp add: H5_STRUCT_PADDING_def)
  qed
qed

lemma mod_zero_unique:
  fixes c p q m :: nat
  assumes "p < m" "q < m" "(c + p) mod m = 0" "(c + q) mod m = 0"
  shows "p = q"
proof -
  have d: "m dvd c + p" "m dvd c + q" using assms by (simp_all add: mod_eq_0_iff_dvd)
  show ?thesis
  proof (cases "q \<le> p")
    case True
    have "m dvd (c + p) - (c + q)" using d by (rule dvd_diff_nat)
    then have "m dvd p - q" by simp
    moreover have "p - q < m" using assms by arith
    ultimately have "p - q = 0" using nat_dvd_not_less by blast
    then show ?thesis using True by simp
  next
    case False
    have "m dvd (c + q) - (c + p)" using d(2) d(1) by (rule dvd_diff_nat)
    then have "m dvd q - p" by simp
    moreover have "q - p < m" using assms by arith
    ultimately have "q - p = 0" using nat_dvd_not_less by blast
    then show ?thesis using False by simp
  qed
qed

lemma round_up_eq:
  fixes c p m :: nat
  assumes "p < m" "(c + p) mod m = 0"
  shows "c + p = ((c + m - 1) div m) * m"
proof -
  from assms have "m dvd c + p" by (simp add: mod_eq_0_iff_dvd)
  then obtain k where k: "c + p = m * k" by (auto simp: dvd_def)
  define r where "r = m - 1 - p"
  have e: "c + m - 1 = r + k * m" using assms k by (simp add: mult.commute r_def)
  have "r < m" using assms by (simp add: r_def)
  then have "(r + k * m) div m = k" by simp
  then have "(c + m - 1) div m = k" by (simp only: e)
  then show ?thesis using k by (simp add: mult.commute)
qed

text \<open>
  C3. For every alignment unit of at least 1 and every current size, the padding macro
  returns the one \<open>pad\<close> below the alignment unit that makes
  \<open>current_size + pad\<close> a multiple of the unit: it rounds \<open>current_size\<close> up to the
  next multiple of the unit. The sum is the mathematical one (on \<open>unat\<close>).
\<close>

theorem H5_STRUCT_PADDING_rounds_up:
  assumes "1 \<le> align_unit"
  shows "\<exists>pad. H5_STRUCT_PADDING current_size align_unit = Inr pad \<and>
           unat pad < unat align_unit \<and>
           (unat current_size + unat pad) mod unat align_unit = 0 \<and>
           (\<forall>q. q < unat align_unit \<and> (unat current_size + q) mod unat align_unit = 0
                 \<longrightarrow> q = unat pad) \<and>
           unat current_size + unat pad =
             ((unat current_size + unat align_unit - 1) div unat align_unit) * unat align_unit"
proof -
  from assms have "align_unit \<noteq> 0" by auto
  from padding_unat [OF this, of current_size] obtain pad where
    p: "H5_STRUCT_PADDING current_size align_unit = Inr pad"
       "unat pad < unat align_unit"
       "(unat current_size + unat pad) mod unat align_unit = 0"
    by (elim exE conjE)
  have u: "\<forall>q. q < unat align_unit \<and> (unat current_size + q) mod unat align_unit = 0
                 \<longrightarrow> q = unat pad"
  proof (intro allI impI)
    fix q
    assume "q < unat align_unit \<and> (unat current_size + q) mod unat align_unit = 0"
    then show "q = unat pad"
      using mod_zero_unique [of q "unat align_unit" "unat pad" "unat current_size"] p(2,3)
      by simp
  qed
  have r: "unat current_size + unat pad =
             ((unat current_size + unat align_unit - 1) div unat align_unit) * unat align_unit"
    using p(2,3) by (rule round_up_eq)
  show ?thesis by (intro exI [of _ pad] conjI p u r)
qed

theorem H5_STRUCT_PADDING_rounds_up_witness:
  "(1::size_t) \<le> 4 \<and> H5_STRUCT_PADDING 5 4 = Inr 3 \<and> H5_STRUCT_PADDING 8 4 = Inr 0 \<and>
   unat (5::size_t) + unat (3::size_t) = ((unat (5::size_t) + unat (4::size_t) - 1) div unat (4::size_t)) * unat (4::size_t)"
proof -
  have h: "(1::size_t) \<le> 4" by simp
  from H5_STRUCT_PADDING_rounds_up [OF h, of 5] obtain pad where
    p: "H5_STRUCT_PADDING 5 4 = Inr pad"
       "unat (5::size_t) + unat pad =
          ((unat (5::size_t) + unat (4::size_t) - 1) div unat (4::size_t)) * unat (4::size_t)"
    by (elim exE conjE)
  have e: "H5_STRUCT_PADDING 5 4 = Inr 3" "H5_STRUCT_PADDING 8 4 = Inr 0"
    by (simp_all add: H5_STRUCT_PADDING_def)
  from p(1) e(1) have "pad = 3" by simp
  with p(2) h e show ?thesis by simp
qed

section \<open>Properties of find_first_atomic_member_size\<close>

lemma find_compound_step:assumes "h5t_class t = H5T_COMPOUND" "h5t_members t = (nm, off, t') # rest"
  shows "find_first_atomic_member_size (Some t) = find_first_atomic_member_size (Some t')"
  using assms
  by (subst find_first_atomic_member_size.simps)
     (simp add: H5Tget_class_def H5Tget_nmembers_def H5Tget_member_type_def)

lemma find_string:
  assumes "h5t_class t = H5T_STRING"
  shows "find_first_atomic_member_size (Some t) = Inr 1"
  using assms
  by (subst find_first_atomic_member_size.simps) (simp add: H5Tget_class_def)

lemma find_other:
  assumes "h5t_class t \<noteq> H5T_COMPOUND" "h5t_class t \<noteq> H5T_STRING"
  shows "find_first_atomic_member_size (Some t) = h5t_get_size (Some t)"
  using assms
  by (subst find_first_atomic_member_size.simps) (simp add: H5Tget_class_def)

lemma find_first_leaf:
  assumes "first_leaf t l"
  shows "find_first_atomic_member_size (Some t) =
           (if h5t_class l = H5T_STRING then Inr 1 else h5t_get_size (Some l))"
  using assms
proof (induction rule: first_leaf.induct)
  case (leaf t)
  then show ?case by (simp add: find_string find_other)
next
  case (descend t nm off t' rest l)
  then show ?case by (simp add: find_compound_step)
qed

lemma find_invalid: "find_first_atomic_member_size None = Inl ErrorGettingSize"
  by (subst find_first_atomic_member_size.simps)
     (simp add: H5Tget_class_def h5t_get_size_def H5Tget_size_def)

lemma find_empty_compound:
  assumes "h5t_class t = H5T_COMPOUND" "h5t_members t = []"
  shows "find_first_atomic_member_size (Some t) = Inl NoMembersDefined"
  using assms
  by (subst find_first_atomic_member_size.simps)
     (simp add: H5Tget_class_def H5Tget_nmembers_def)

text \<open>
  C2. The alignment unit that \<open>find_first_atomic_member_size\<close> computes: for a
  composite it is the alignment unit of the first member; for a descriptor of the
  string class it is 1; for any other descriptor it is the descriptor's byte size. So
  the result is decided by the first leaf, the descriptor the descent through first
  members ends at. The function is total: the descent ends on every descriptor.
\<close>

theorem find_first_atomic_member_size_cases:
  "(h5t_class t = H5T_COMPOUND \<and> h5t_members t = (nm, off, t') # rest \<longrightarrow>
      find_first_atomic_member_size (Some t) = find_first_atomic_member_size (Some t')) \<and>
   (h5t_class t = H5T_STRING \<longrightarrow> find_first_atomic_member_size (Some t) = Inr 1) \<and>
   (h5t_class t \<noteq> H5T_COMPOUND \<and> h5t_class t \<noteq> H5T_STRING \<and> h5t_size t \<noteq> 0 \<longrightarrow>
      find_first_atomic_member_size (Some t) = Inr (h5t_size t)) \<and>
   (first_leaf t l \<and> (h5t_class l = H5T_STRING \<or> h5t_size l \<noteq> 0) \<longrightarrow>
      find_first_atomic_member_size (Some t) =
        Inr (if h5t_class l = H5T_STRING then 1 else h5t_size l))"
proof (intro conjI impI)
  assume "h5t_class t = H5T_COMPOUND \<and> h5t_members t = (nm, off, t') # rest"
  then show "find_first_atomic_member_size (Some t) = find_first_atomic_member_size (Some t')"
    by (simp add: find_compound_step)
next
  assume "h5t_class t = H5T_STRING"
  then show "find_first_atomic_member_size (Some t) = Inr 1" by (rule find_string)
next
  assume "h5t_class t \<noteq> H5T_COMPOUND \<and> h5t_class t \<noteq> H5T_STRING \<and> h5t_size t \<noteq> 0"
  then show "find_first_atomic_member_size (Some t) = Inr (h5t_size t)"
    by (simp add: find_other h5t_get_size_def H5Tget_size_def)
next
  assume "first_leaf t l \<and> (h5t_class l = H5T_STRING \<or> h5t_size l \<noteq> 0)"
  then show "find_first_atomic_member_size (Some t) =
               Inr (if h5t_class l = H5T_STRING then 1 else h5t_size l)"
    by (auto simp: find_first_leaf h5t_get_size_def H5Tget_size_def)
qed

lemma first_leaf_nested: "first_leaf nested NATIVE_DOUBLE"
proof -
  have 1: "first_leaf NATIVE_DOUBLE NATIVE_DOUBLE"
    by (rule first_leaf.leaf) (simp add: NATIVE_DOUBLE_def)
  have 2: "first_leaf double_char NATIVE_DOUBLE"
    by (rule first_leaf.descend [OF _ _ 1]) (simp_all add: double_char_def)
  show ?thesis
    by (rule first_leaf.descend [OF _ _ 2]) (simp_all add: nested_def)
qed

theorem find_first_atomic_member_size_cases_witness:
  "first_leaf nested NATIVE_DOUBLE \<and>
   find_first_atomic_member_size (Some nested) = Inr 8 \<and>
   find_first_atomic_member_size (Some nested) = find_first_atomic_member_size (Some double_char) \<and>
   find_first_atomic_member_size (Some C_S1_8) = Inr 1 \<and>
   find_first_atomic_member_size (Some NATIVE_INT) = Inr 4"
proof -
  note c = find_first_atomic_member_size_cases
  have a: "find_first_atomic_member_size (Some nested) = Inr 8"
    using c [of nested _ _ _ _ NATIVE_DOUBLE] first_leaf_nested
    by (simp add: NATIVE_DOUBLE_def)
  have b: "find_first_atomic_member_size (Some nested) = find_first_atomic_member_size (Some double_char)"
    using c [of nested "''inner''" 0 double_char "[(''x'', 16, NATIVE_INT)]"]
    by (simp add: nested_def)
  have s: "find_first_atomic_member_size (Some C_S1_8) = Inr 1"
    using c [of C_S1_8] by (simp add: C_S1_8_def)
  have i: "find_first_atomic_member_size (Some NATIVE_INT) = Inr 4"
    using c [of NATIVE_INT] by (simp add: NATIVE_INT_def)
  show ?thesis using first_leaf_nested a b s i by simp
qed

section \<open>The layout that create computes\<close>


lemma member_size_offset [simp]: "member_size (m\<lparr>offset := off\<rparr>) = member_size m"
  by (simp add: member_size_def)

lemma alignment_unit_offset [simp]: "alignment_unit (m\<lparr>offset := off\<rparr>) = alignment_unit m"
  by (simp add: alignment_unit_def)



lemma layout_bound_Cons [simp]:
  "layout_bound (m # ms) = unat (member_size m) + unat (alignment_unit m) + layout_bound ms"
  by (simp add: layout_bound_def)

lemma layout_bound_Nil [simp]: "layout_bound [] = 0"
  by (simp add: layout_bound_def)



lemma insert_members_result:
  assumes "insert_members lib (Some p) ms = Inr h"
  shows "\<exists>d. h = Some d \<and> h5t_class d = h5t_class p \<and> h5t_size d = h5t_size p \<and>
             map (\<lambda>(n, off, t). (n, off, Some t)) (h5t_members d) =
               map (\<lambda>(n, off, t). (n, off, Some t)) (h5t_members p) @
               map (\<lambda>m. (name m, offset m, base_type m)) ms"
  using assms
proof (induction ms arbitrary: p)
  case Nil
  then show ?case by auto
next
  case (Cons m rest)
  from Cons.prems obtain p' where
    i: "H5Tinsert lib (Some p) (name m) (offset m) (base_type m) = Some p'"
    and r: "insert_members lib (Some p') rest = Inr h"
    by (auto split: option.splits)
  from i obtain t where t: "base_type m = Some t"
    and p': "p' = H5T (h5t_class p) (h5t_size p) (h5t_variable_str p) (h5t_std_ref_obj p)
                      (h5t_members p @ [(name m, offset m, t)])"
    by (auto simp: H5Tinsert_def split: option.splits if_splits)
  from Cons.IH [OF r] show ?case by (auto simp: p' t)
qed




lemmas eval_defs =
  create_def lib_ok_def char_int_def NATIVE_CHAR_def NATIVE_INT_def h5t_get_size_def
  H5Tget_size_def find_first_atomic_member_size.simps H5Tget_class_def H5_STRUCT_PADDING_def
  H5Tcreate_COMPOUND_def H5Tinsert_def







section \<open>create with an explicit size\<close>

lemma create_explicit_unfold:
  assumes "sz \<noteq> 0"
  shows "create lib self sz =
           (case H5Tcreate_COMPOUND lib sz of
              None \<Rightarrow> Inl CouldNotCreateCompound
            | Some h \<Rightarrow>
                (case insert_members lib (Some h) (members self) of
                   Inl e \<Rightarrow> Inl e
                 | Inr h' \<Rightarrow> Inr (self\<lparr>compound_hid := h'\<rparr>)))"
  using assms by (simp add: create_def split: option.splits sum.splits)

text \<open>
  C4 (as amended). When \<open>create\<close> is called with a non-zero size and returns, that
  size is the total size of the composite, and the first pass has not run: the members
  keep the offsets they were given, and the composite has them at these offsets.
\<close>

theorem create_explicit_size:
  assumes "sz \<noteq> 0" and "create lib self sz = Inr self'"
  shows "members self' = members self \<and>
         (\<exists>d. compound_hid self' = Some d \<and> h5t_class d = H5T_COMPOUND \<and> h5t_size d = sz \<and>
              map (\<lambda>(n, off, t). (n, off, Some t)) (h5t_members d) =
                map (\<lambda>m. (name m, offset m, base_type m)) (members self))"
proof -
  from assms obtain h where
    cr: "H5Tcreate_COMPOUND lib sz = Some h"
    and ins: "insert_members lib (Some h) (members self) = Inr (compound_hid self')"
    and mem: "members self' = members self"
    by (auto simp: create_explicit_unfold split: option.splits sum.splits)
  from cr have h: "h = H5T H5T_COMPOUND sz False False []"
    by (simp add: H5Tcreate_COMPOUND_def split: if_splits)
  from insert_members_result [OF ins] show ?thesis
    by (auto simp: h mem)
qed

lemma create_char_int_packed:
  "create lib_ok \<lparr>members = char_int_packed, compound_hid = None\<rparr> 5 = Inr char_int_packed_created"
  by (simp add: create_def lib_ok_def char_int_packed_def char_int_packed_created_def
        H5Tcreate_COMPOUND_def H5Tinsert_def)

theorem create_explicit_size_witness:
  "(5 :: size_t) \<noteq> 0 \<and>
   create lib_ok \<lparr>members = char_int_packed, compound_hid = None\<rparr> 5 = Inr char_int_packed_created \<and>
   members char_int_packed_created = char_int_packed \<and>
   map offset (members char_int_packed_created) = [0, 1]"
proof -
  let ?self = "\<lparr>members = char_int_packed, compound_hid = None\<rparr>"
  have h1: "(5 :: size_t) \<noteq> 0" by simp
  have h2: "create lib_ok ?self 5 = Inr char_int_packed_created" by (rule create_char_int_packed)
  from create_explicit_size [OF h1 h2]
  have m: "members char_int_packed_created = char_int_packed" by simp
  then have "map offset (members char_int_packed_created) = [0, 1]"
    by (simp add: char_int_packed_def)
  with h1 h2 m show ?thesis by simp
qed

text \<open>
  The same two members (names and types), once with the offsets 0 and 1 and the explicit
  size 5, once laid out by the first pass: the offsets differ.
\<close>

theorem create_explicit_size_counterexample:
  "map name char_int_packed = map name char_int \<and>
   map base_type char_int_packed = map base_type char_int \<and>
   create lib_ok \<lparr>members = char_int_packed, compound_hid = None\<rparr> 5 = Inr char_int_packed_created \<and>
   map offset (members char_int_packed_created) = [0, 1] \<and>
   create lib_ok \<lparr>members = char_int_packed, compound_hid = None\<rparr> 0 = Inr char_int_created \<and>
   map offset (members char_int_created) = [0, 4]"
  by (simp add: eval_defs char_int_packed_def char_int_packed_created_def char_int_created_def)

text \<open>
  \<open>create\<close> has no check for an empty member list. With a non-zero size and no
  members it builds a composite of that size without members, unless the storage
  library refuses to create it.
\<close>

lemma create_empty_explicit_size:
  assumes "sz \<noteq> 0" and "members self = []"
  shows "create lib self sz =
           (if create_refused lib sz then Inl CouldNotCreateCompound
            else Inr (self\<lparr>compound_hid := Some (H5T H5T_COMPOUND sz False False [])\<rparr>))"
  using assms by (simp add: create_explicit_unfold H5Tcreate_COMPOUND_def)

text \<open>
  With size 0 and no members the first pass leaves \<open>max_atomic_size = 0\<close>, and the
  padding of the total size divides by it.
\<close>

lemma create_empty_implicit_size:
  "members self = [] \<Longrightarrow> create lib self 0 = Inl DivisionByZero"
  by (simp add: create_def H5_STRUCT_PADDING_def)

text \<open>
  C5 states that \<open>create\<close> fails with a layout error on an empty member list, with and
  without an explicit size. On the empty member list \<open>create\<close> with the size 8 returns
  a composite without members, and \<open>create\<close> with the size 0 raises nothing: it
  reaches the padding macro with a zero divisor, which is undefined behaviour.
\<close>

theorem create_empty_member_list:
  "members no_members = [] \<and>
   create lib_ok no_members 8 =
     Inr \<lparr>members = [], compound_hid = Some (H5T H5T_COMPOUND 8 False False [])\<rparr> \<and>
   create lib_ok no_members 0 = Inl DivisionByZero"
  by (simp add: no_members_def create_def lib_ok_def H5Tcreate_COMPOUND_def
        H5_STRUCT_PADDING_def)

section \<open>Properties of create_and_check_datatype\<close>

lemmas datatype_query_defs =
  empty_def isVariableStr_def isReference_def isFixedLenStr_def getClass_def getSize_def
  H5Tis_variable_str_def H5Tequal_STD_REF_OBJ_def H5Tget_class_def h5t_get_size_def
  H5Tget_size_def

lemma isVariableStr_valid: "\<not> empty t \<Longrightarrow> \<exists>v. isVariableStr t = Inr v"
  by (cases t) (auto simp: datatype_query_defs)

text \<open>
  C6. \<open>create_and_check_datatype\<close> fails when the descriptor is empty; returns the
  descriptor, with no look at its size, when it is a variable-length string, a reference
  or a fixed-length string; and otherwise, with \<open>sz\<close> the descriptor's byte size,
  fails with the size mismatch exactly when \<open>sizeof(T)\<close> differs from \<open>sz\<close> and
  returns the descriptor when they are equal.
\<close>

theorem create_and_check_datatype_cases:
  "(empty t \<longrightarrow> create_and_check_datatype t sizeof_T = Inl TypeNotValid) \<and>
   (\<not> empty t \<and> isVariableStr t = Inr True \<longrightarrow>
      create_and_check_datatype t sizeof_T = Inr t) \<and>
   (\<not> empty t \<and> isReference t \<longrightarrow> create_and_check_datatype t sizeof_T = Inr t) \<and>
   (\<not> empty t \<and> isFixedLenStr t = Inr True \<longrightarrow>
      create_and_check_datatype t sizeof_T = Inr t) \<and>
   (\<not> empty t \<and> isVariableStr t = Inr False \<and> \<not> isReference t \<and>
    isFixedLenStr t = Inr False \<and> getSize t = Inr sz \<longrightarrow>
      create_and_check_datatype t sizeof_T =
        (if sizeof_T \<noteq> sz then Inl (SizeMismatch sizeof_T sz) else Inr t))"
proof (intro conjI impI)
  assume "empty t"
  then show "create_and_check_datatype t sizeof_T = Inl TypeNotValid"
    by (simp add: create_and_check_datatype_def)
next
  assume "\<not> empty t \<and> isVariableStr t = Inr True"
  then show "create_and_check_datatype t sizeof_T = Inr t"
    by (simp add: create_and_check_datatype_def)
next
  assume a: "\<not> empty t \<and> isReference t"
  then obtain v where "isVariableStr t = Inr v" using isVariableStr_valid by blast
  with a show "create_and_check_datatype t sizeof_T = Inr t"
    by (cases v) (simp_all add: create_and_check_datatype_def)
next
  assume a: "\<not> empty t \<and> isFixedLenStr t = Inr True"
  then have "isVariableStr t = Inr False"
    by (auto simp: isFixedLenStr_def split: if_splits sum.splits)
  with a show "create_and_check_datatype t sizeof_T = Inr t"
    by (simp add: create_and_check_datatype_def)
next
  assume "\<not> empty t \<and> isVariableStr t = Inr False \<and> \<not> isReference t \<and>
          isFixedLenStr t = Inr False \<and> getSize t = Inr sz"
  then show "create_and_check_datatype t sizeof_T =
               (if sizeof_T \<noteq> sz then Inl (SizeMismatch sizeof_T sz) else Inr t)"
    by (simp add: create_and_check_datatype_def)
qed

theorem create_and_check_datatype_cases_witness:
  "empty None \<and> create_and_check_datatype None 4 = Inl TypeNotValid \<and>
   isVariableStr (Some C_S1_VARIABLE) = Inr True \<and>
   create_and_check_datatype (Some C_S1_VARIABLE) 32 = Inr (Some C_S1_VARIABLE) \<and>
   isReference (Some STD_REF_OBJ) \<and>
   create_and_check_datatype (Some STD_REF_OBJ) 16 = Inr (Some STD_REF_OBJ) \<and>
   isFixedLenStr (Some C_S1_8) = Inr True \<and>
   create_and_check_datatype (Some C_S1_8) 1 = Inr (Some C_S1_8) \<and>
   getSize (Some NATIVE_INT) = Inr 4 \<and>
   create_and_check_datatype (Some NATIVE_INT) 4 = Inr (Some NATIVE_INT) \<and>
   create_and_check_datatype (Some NATIVE_INT) 8 = Inl (SizeMismatch 8 4)"
proof -
  note c = create_and_check_datatype_cases
  have e: "empty None" by (simp add: empty_def)
  have 1: "create_and_check_datatype None 4 = Inl TypeNotValid"
    using c [of None 4] e by simp
  have v: "\<not> empty (Some C_S1_VARIABLE) \<and> isVariableStr (Some C_S1_VARIABLE) = Inr True"
    by (simp add: datatype_query_defs C_S1_VARIABLE_def)
  have 2: "create_and_check_datatype (Some C_S1_VARIABLE) 32 = Inr (Some C_S1_VARIABLE)"
    using c [of "Some C_S1_VARIABLE" 32] v by simp
  have r: "\<not> empty (Some STD_REF_OBJ) \<and> isReference (Some STD_REF_OBJ)"
    by (simp add: datatype_query_defs STD_REF_OBJ_def)
  have 3: "create_and_check_datatype (Some STD_REF_OBJ) 16 = Inr (Some STD_REF_OBJ)"
    using c [of "Some STD_REF_OBJ" 16] r by simp
  have f: "\<not> empty (Some C_S1_8) \<and> isFixedLenStr (Some C_S1_8) = Inr True"
    by (simp add: datatype_query_defs C_S1_8_def)
  have 4: "create_and_check_datatype (Some C_S1_8) 1 = Inr (Some C_S1_8)"
    using c [of "Some C_S1_8" 1] f by simp
  have i: "\<not> empty (Some NATIVE_INT) \<and> isVariableStr (Some NATIVE_INT) = Inr False \<and>
           \<not> isReference (Some NATIVE_INT) \<and> isFixedLenStr (Some NATIVE_INT) = Inr False \<and>
           getSize (Some NATIVE_INT) = Inr 4"
    by (simp add: datatype_query_defs NATIVE_INT_def)
  have 5: "create_and_check_datatype (Some NATIVE_INT) 4 = Inr (Some NATIVE_INT)"
    using c [of "Some NATIVE_INT" 4 4] i by simp
  have 6: "create_and_check_datatype (Some NATIVE_INT) 8 = Inl (SizeMismatch 8 4)"
    using c [of "Some NATIVE_INT" 8 4] i by simp
  show ?thesis using e 1 v 2 r 3 f 4 i 5 6 by simp
qed

section \<open>Properties of FixedLenStringArray\<close>

lemma replicate_update_same: "(replicate n x)[i := x] = replicate n x"
  by (induction n arbitrary: i) (simp_all split: nat.splits)

lemma copy_and_terminate_zeroed:
  assumes "len \<le> length s" and "len < N"
  shows "copy_and_terminate (replicate N NUL) (c_str s) len =
           Inr (take len s @ replicate (N - len) NUL)"
proof -
  have m: "memcpy (replicate N NUL) (c_str s) len = Inr (take len s @ replicate (N - len) NUL)"
    using assms by (simp add: memcpy_def c_str_def)
  have l: "length (take len s) = len" using assms by simp
  have "(take len s @ replicate (N - len) NUL)[len := NUL] = take len s @ replicate (N - len) NUL"
    by (simp add: list_update_append l replicate_update_same)
  then show ?thesis using assms m by (simp add: copy_and_terminate_def store_def)
qed

lemma takeWhile_before_NUL:
  assumes "0 < k"
  shows "takeWhile (\<lambda>c. c \<noteq> NUL) (xs @ replicate k NUL) = takeWhile (\<lambda>c. c \<noteq> NUL) xs"
proof -
  from assms obtain k' where "k = Suc k'" by (cases k) auto
  then show ?thesis by (induction xs) simp_all
qed

lemma push_back_element:
  assumes "1 \<le> N"
  shows "push_back N datavec s =
           Inr (datavec @ [take (min (N - 1) (length s)) s @
                           replicate (N - min (N - 1) (length s)) NUL])"
proof -
  let ?len = "min (N - 1) (length s)"
  have n: "N_minus_1 N = N - 1" using assms by (simp add: N_minus_1_def)
  have "?len \<le> length s" "?len < N" using assms by simp_all
  then show ?thesis by (simp add: push_back_def n copy_and_terminate_zeroed Let_def)
qed

text \<open>
  C7. For \<open>N\<close> of at least 1, \<open>push_back\<close> of a string \<open>s\<close> never fails: it
  appends one array of \<open>N\<close> bytes whose first \<open>min (N - 1) (length s)\<close> bytes are
  those of \<open>s\<close>, with the null character right after them, and \<open>getString\<close> on
  that element returns the copied text up to its first null character. For \<open>N = 8\<close>
  and \<open>"HelloWorld"\<close> the element is \<open>"HelloWo"\<close> and a null character, and
  \<open>getString\<close> returns \<open>"HelloWo"\<close>.
\<close>

theorem push_back_truncates:
  "(1 \<le> N \<longrightarrow>
      (\<exists>a. push_back N datavec s = Inr (datavec @ [a]) \<and> length a = N \<and>
           take (min (N - 1) (length s)) a = take (min (N - 1) (length s)) s \<and>
           a ! min (N - 1) (length s) = NUL \<and>
           getString (datavec @ [a]) (length datavec) =
             Inr (takeWhile (\<lambda>c. c \<noteq> NUL) (take (min (N - 1) (length s)) s)))) \<and>
   push_back 8 datavec ''HelloWorld'' = Inr (datavec @ [''HelloWo'' @ [NUL]]) \<and>
   getString (datavec @ [''HelloWo'' @ [NUL]]) (length datavec) = Inr ''HelloWo''"
proof (intro conjI impI)
  assume N: "1 \<le> N"
  define len where "len = min (N - 1) (length s)"
  define a where "a = take len s @ replicate (N - len) NUL"
  have len: "len \<le> length s" "len < N" using N by (simp_all add: len_def)
  have tl: "length (take len s) = len" using len by simp
  have k: "0 < N - len" using len by arith
  have 1: "push_back N datavec s = Inr (datavec @ [a])"
    using push_back_element [OF N] by (simp add: a_def len_def)
  have 2: "length a = N" using len by (simp add: a_def)
  have 3: "take len a = take len s" using tl by (simp add: a_def)
  have 4: "a ! len = NUL" using k tl by (simp add: a_def nth_append)
  have "NUL \<in> set a" using k by (simp add: a_def)
  moreover have "takeWhile (\<lambda>c. c \<noteq> NUL) a = takeWhile (\<lambda>c. c \<noteq> NUL) (take len s)"
    unfolding a_def using k by (rule takeWhile_before_NUL)
  ultimately have 5: "getString (datavec @ [a]) (length datavec) =
                        Inr (takeWhile (\<lambda>c. c \<noteq> NUL) (take len s))"
    by (simp add: getString_def)
  show "\<exists>a. push_back N datavec s = Inr (datavec @ [a]) \<and> length a = N \<and>
           take (min (N - 1) (length s)) a = take (min (N - 1) (length s)) s \<and>
           a ! min (N - 1) (length s) = NUL \<and>
           getString (datavec @ [a]) (length datavec) =
             Inr (takeWhile (\<lambda>c. c \<noteq> NUL) (take (min (N - 1) (length s)) s))"
    unfolding len_def [symmetric] by (intro exI [of _ a] conjI 1 2 3 4 5)
next
  show "push_back 8 datavec ''HelloWorld'' = Inr (datavec @ [''HelloWo'' @ [NUL]])"
    by (simp add: push_back_element numeral_eq_Suc)
next
  show "getString (datavec @ [''HelloWo'' @ [NUL]]) (length datavec) = Inr ''HelloWo''"
    by (simp add: getString_def NUL_def)
qed

theorem push_back_truncates_witness:
  "(1::nat) \<le> 4 \<and> push_back 4 [] ''abcdef'' = Inr [''abc'' @ [NUL]] \<and>
   push_back 4 [] ''ab'' = Inr [''ab'' @ [NUL, NUL]] \<and>
   getString [''abc'' @ [NUL]] 0 = Inr ''abc''"
proof -
  have h: "(1::nat) \<le> 4" by simp
  have e1: "push_back 4 [] ''abcdef'' = Inr [''abc'' @ [NUL]]"
    by (simp add: push_back_element numeral_eq_Suc)
  have e2: "push_back 4 [] ''ab'' = Inr [''ab'' @ [NUL, NUL]]"
    by (simp add: push_back_element numeral_eq_Suc)
  from push_back_truncates [of 4 "[]" "''abcdef''", THEN conjunct1, rule_format, OF h]
  obtain a where
    a1: "push_back 4 [] ''abcdef'' = Inr ([] @ [a])"
    and a5: "getString ([] @ [a]) (length ([] :: char list list)) =
               Inr (takeWhile (\<lambda>c. c \<noteq> NUL) (take (min (4 - 1) (length ''abcdef'')) ''abcdef''))"
    by (elim exE conjE)
  from a1 e1 have "a = ''abc'' @ [NUL]" by simp
  with a5 have g: "getString [''abc'' @ [NUL]] 0 = Inr ''abc''"
    by (simp add: NUL_def numeral_eq_Suc)
  show ?thesis using h e1 e2 g by simp
qed

lemma strlen_c_str: "strlen (c_str s) = length (takeWhile (\<lambda>c. c \<noteq> NUL) s)"
  by (induction s) (simp_all add: strlen_def c_str_def)

lemma fill_all_length:
  assumes "1 \<le> N"
  shows "\<exists>r. fill_all N strs = Inr r \<and> length r = length strs"
proof (induction strs)
  case Nil
  show ?case by simp
next
  case (Cons s rest)
  let ?len = "min (N_minus_1 N) (strlen (c_str s))"
  have "length (takeWhile (\<lambda>c. c \<noteq> NUL) s) \<le> length s" by (rule length_takeWhile_le)
  then have "?len \<le> length s" "?len < N"
    using assms by (simp_all add: N_minus_1_def strlen_c_str)
  then have "copy_and_terminate (replicate N NUL) (c_str s) ?len =
               Inr (take ?len s @ replicate (N - ?len) NUL)"
    by (rule copy_and_terminate_zeroed)
  with Cons show ?case by (auto simp: Let_def)
qed

text \<open>
  The constructor from a vector leaves the last string out: the range it passes ends
  at the address of the last element.
\<close>

lemma FixedLenStringArray_vector_drops_last:
  assumes "1 \<le> N" and "vec \<noteq> []"
  shows "\<exists>r. FixedLenStringArray_vector N vec = Inr r \<and> length r = length vec - 1"
  using assms fill_all_length [OF assms(1), of "take (length vec - 1) vec"]
  by (auto simp: FixedLenStringArray_vector_def FixedLenStringArray_range_def)

text \<open>
  C8 states that the constructor from a vector of \<open>k\<close> strings gives \<open>k\<close> elements.
  On the vector \<open>{"a", "b"}\<close> with \<open>N = 8\<close> the constructor gives the one element
  for \<open>"a"\<close>; the constructor from an initializer list gives both.
\<close>

theorem FixedLenStringArray_vector_two_strings:
  "FixedLenStringArray_vector 8 [''a'', ''b''] = Inr [''a'' @ replicate 7 NUL] \<and>
   FixedLenStringArray_initializer_list 8 [''a'', ''b''] =
     Inr [''a'' @ replicate 7 NUL, ''b'' @ replicate 7 NUL]"
  by (simp add: FixedLenStringArray_vector_def FixedLenStringArray_initializer_list_def
        FixedLenStringArray_range_def N_minus_1_def strlen_def c_str_def copy_and_terminate_def
        memcpy_def store_def NUL_def numeral_eq_Suc)

text \<open>
  C10. \<open>push_back\<close> of a \<open>std::array<char, N>\<close> appends the \<open>N\<close> bytes of the
  source unchanged: nothing is cut and no null character is added, so the element
  holds a null character only if the source does.
\<close>

theorem push_back_array_stores_all:
  assumes "length src = N"
  shows "\<exists>a. push_back_array N datavec src = Inr (datavec @ [a]) \<and> a = src \<and>
             length a = N \<and> (NUL \<in> set a \<longleftrightarrow> NUL \<in> set src)"
  using assms by (simp add: push_back_array_def std_copy_def)

theorem push_back_array_stores_all_witness:
  "length ''abc'' = 3 \<and> push_back_array 3 [] ''abc'' = Inr [''abc''] \<and>
   NUL \<notin> set ''abc'' \<and> getString [''abc''] 0 = Inl OutOfBounds \<and>
   push_back 3 [] ''abc'' = Inr [''ab'' @ [NUL]]"
proof -
  have h: "length ''abc'' = 3" by simp
  from push_back_array_stores_all [OF h, of "[]"]
  have 1: "push_back_array 3 [] ''abc'' = Inr [''abc'']" by simp
  have 2: "NUL \<notin> set ''abc''" by (simp add: NUL_def)
  have 3: "getString [''abc''] 0 = Inl OutOfBounds" by (simp add: getString_def NUL_def)
  have 4: "push_back 3 [] ''abc'' = Inr [''ab'' @ [NUL]]"
    by (simp add: push_back_element numeral_eq_Suc)
  show ?thesis using h 1 2 3 4 by simp
qed

section \<open>Properties of commit\<close>

text \<open>
  C9 states that a failure of the commit primitive is raised to the caller. With a
  primitive that fails (it returns \<open>-1\<close>), both \<open>commit\<close> functions return
  normally.
\<close>

theorem commit_drops_failure:
  "CompoundType_commit (\<lambda>st object nm h. (- 1, st)) st self object nm = (Inr (), st) \<and>
   EnumType_commit (\<lambda>st object nm h. (- 1, st)) st self' object nm = (Inr (), st)"
  by (simp add: CompoundType_commit_def EnumType_commit_def)

text \<open>Whatever the primitive returns, neither function raises.\<close>

lemma commit_never_fails:
  "fst (CompoundType_commit H5Tcommit2 st self object nm) = Inr () \<and>
   fst (EnumType_commit H5Tcommit2 st self' object nm) = Inr ()"
  by (simp add: CompoundType_commit_def EnumType_commit_def split: prod.splits)

end
